theory Spec2Isabelle
  imports Main "HOL-Library.AList"
begin

section \<open>Data model\<close>

text \<open>
  The gate of \<^verbatim>\<open>middlewares/auth.js\<close> works on one Express request at a time.
  A request carries its headers, its cookies, its route parameters, and, once the
  verifier has run, the user document \<^verbatim>\<open>req.user\<close>. A JavaScript value that
  may be \<^verbatim>\<open>undefined\<close> or \<^verbatim>\<open>null\<close> is an \<open>option\<close>.
\<close>

record user_doc =
  user_id :: string
  role :: string
  user_name :: string
  email :: string

record headers_rec =
  authorization :: "string option"

record cookies_rec =
  token :: "string option"

record params_rec =
  bootcampID :: "string option"
  param_id :: "string option"

text \<open>
  \<^verbatim>\<open>req.body\<close> is a JSON object: its properties in order, each a string or
  \<^verbatim>\<open>undefined\<close>.
\<close>

type_synonym body_obj = "(string \<times> string option) list"

record request =
  headers :: headers_rec
  cookies :: cookies_rec
  params :: params_rec
  body :: body_obj
  user :: "user_doc option"

text \<open>The documents the course handlers read: each names its owner.\<close>

record bootcamp_doc =
  bootcamp_id :: string
  bootcamp_user :: string
  bootcamp_name :: string

record course_doc =
  course_id :: string
  course_user :: string
  course_bootcamp :: string
  course_title :: string

text \<open>The JSON values the handlers send.\<close>

datatype json =
  JNull
  | JBool bool
  | JString string
  | JCourse course_doc
  | JObject "(string \<times> json) list"

text \<open>
  The response object \<^verbatim>\<open>res\<close>: \<^verbatim>\<open>res.status\<close> sets the status,
  \<^verbatim>\<open>res.cookie\<close> adds one \<^verbatim>\<open>Set-Cookie\<close> (name, value, options) and
  \<^verbatim>\<open>res.json\<close> sets the body. A cookie option that was never assigned is
  \<open>None\<close>; \<open>expires\<close> is a date in milliseconds since the epoch.
\<close>

record cookie_option =
  expires :: int
  httpOnly :: bool
  secure :: "bool option"

record response =
  status :: nat
  set_cookies :: "(string \<times> string \<times> cookie_option) list"
  json_body :: "json option"

text \<open>
  The configuration read from \<^verbatim>\<open>process.env\<close>. \<open>JWT_COOKIE_EXPIRES\<close> is the
  number its string becomes in a product, \<open>None\<close> when that is \<^verbatim>\<open>NaN\<close> (the
  variable unset or not numeric); it is a whole number of days.
\<close>

record environment =
  JWT_SECRET :: string
  JWT_COOKIE_EXPIRES :: "int option"
  NODE_ENV :: string

text \<open>
  \<^verbatim>\<open>new ErrorResponse(message, statusCode)\<close>: the error object handed to
  \<^verbatim>\<open>next\<close>.
\<close>

record ErrorResponse =
  message :: string
  statusCode :: nat

text \<open>What a thrown JavaScript exception is, as far as the gate can tell.\<close>

datatype exn = TypeError | JsonWebTokenError string | StorageError string

text \<open>The payload \<^verbatim>\<open>jwt.verify\<close> returns; the gate reads \<^verbatim>\<open>decoded.id\<close>.\<close>

record jwt_payload =
  payload_id :: string
  iat :: int
  exp :: int

text \<open>
  How a middleware or a handler ends: \<^verbatim>\<open>next()\<close> with the request as it now
  is, \<^verbatim>\<open>next(err)\<close> with an \<open>ErrorResponse\<close>, an exception that leaves the
  function, or a response sent.
\<close>

datatype outcome = Next request | NextErr ErrorResponse | Threw exn | Sent response

section \<open>String primitives of the host language\<close>

text \<open>\<^verbatim>\<open>s.startsWith(p)\<close>.\<close>

definition startsWith :: "string \<Rightarrow> string \<Rightarrow> bool" where
  "startsWith s p = (take (length p) s = p)"

text \<open>
  \<^verbatim>\<open>s.split(c)\<close> for a one-character separator: the pieces between the
  separators, empty pieces kept, so the empty string gives one empty piece.
\<close>

fun split :: "string \<Rightarrow> char \<Rightarrow> string list" where
  "split [] c = [[]]"
| "split (x # xs) c =
     (if x = c then [] # split xs c
      else (case split xs c of [] \<Rightarrow> [[x]] | w # ws \<Rightarrow> (x # w) # ws))"

text \<open>\<^verbatim>\<open>xs[i]\<close>: \<^verbatim>\<open>undefined\<close> out of range.\<close>

definition at_index :: "'a list \<Rightarrow> nat \<Rightarrow> 'a option" where
  "at_index xs i = (if i < length xs then Some (xs ! i) else None)"

section \<open>The Token Verifier\<close>

definition UNAUTHORIZED :: string where
  "UNAUTHORIZED = ''Not authorized to access this resource.''"

definition NO_LONGER_A_USER :: string where
  "NO_LONGER_A_USER = ''Token is not associated with a user anymore.''"

text \<open>
  Lines 20 to 25 of \<^verbatim>\<open>protect\<close>: the token is the second piece of the
  Authorization header split at spaces, when the header is truthy and starts with
  \<^verbatim>\<open>Bearer\<close>; otherwise it stays \<^verbatim>\<open>undefined\<close>. The cookie branch is
  commented out in the source and has no counterpart here.
\<close>

definition bearer_token :: "request \<Rightarrow> string option" where
  "bearer_token req =
     (case authorization (headers req) of
        None \<Rightarrow> None
      | Some a \<Rightarrow>
          if a \<noteq> [] \<and> startsWith a ''Bearer'' then at_index (split a (CHR '' '')) 1
          else None)"

text \<open>
  \<^verbatim>\<open>protect\<close>. The two collaborators are parameters: \<open>jwt_verify\<close> is
  \<^verbatim>\<open>jwt.verify(token, secret)\<close> of the jsonwebtoken library and \<open>findById\<close> is
  \<^verbatim>\<open>User.findById\<close>; either may throw (\<open>Inl\<close>). \<open>JWT_SECRET env\<close> is
  \<^verbatim>\<open>process.env.JWT_SECRET\<close>. \<^verbatim>\<open>!token\<close> holds of \<^verbatim>\<open>undefined\<close> and
  of the empty string. Everything from the verification to the pass-through sits in
  one \<^verbatim>\<open>try\<close> whose \<^verbatim>\<open>catch\<close> answers 401 with the generic message.
\<close>

definition protect ::
  "(string \<Rightarrow> string \<Rightarrow> exn + jwt_payload) \<Rightarrow> (string \<Rightarrow> exn + user_doc option) \<Rightarrow>
   environment \<Rightarrow> request \<Rightarrow> outcome" where
  "protect jwt_verify findById env req =
     (case bearer_token req of
        None \<Rightarrow> NextErr \<lparr>message = UNAUTHORIZED, statusCode = 401\<rparr>
      | Some tok \<Rightarrow>
          if tok = [] then NextErr \<lparr>message = UNAUTHORIZED, statusCode = 401\<rparr>
          else
            (case jwt_verify tok (JWT_SECRET env) of
               Inl e \<Rightarrow> NextErr \<lparr>message = UNAUTHORIZED, statusCode = 401\<rparr>
             | Inr decoded \<Rightarrow>
                 (case findById (payload_id decoded) of
                    Inl e \<Rightarrow> NextErr \<lparr>message = UNAUTHORIZED, statusCode = 401\<rparr>
                  | Inr None \<Rightarrow> NextErr \<lparr>message = NO_LONGER_A_USER, statusCode = 401\<rparr>
                  | Inr (Some u) \<Rightarrow> Next (req\<lparr>user := Some u\<rparr>))))"

section \<open>The Role Authorizer\<close>

definition FORBIDDEN :: string where
  "FORBIDDEN = ''Certain permission is not met to access this resource.''"

text \<open>
  \<^verbatim>\<open>authorize(...roles)\<close> returns the middleware; reading \<^verbatim>\<open>req.user.role\<close>
  when \<^verbatim>\<open>req.user\<close> is \<^verbatim>\<open>undefined\<close> throws a \<^verbatim>\<open>TypeError\<close>.
  \<^verbatim>\<open>roles.includes\<close> is list membership.
\<close>

definition authorize :: "string list \<Rightarrow> request \<Rightarrow> outcome" where
  "authorize roles req =
     (case user req of
        None \<Rightarrow> Threw TypeError
      | Some u \<Rightarrow>
          if role u \<notin> set roles
          then NextErr \<lparr>message = FORBIDDEN, statusCode = 403\<rparr>
          else Next req)"

section \<open>The course handlers and their ownership checks\<close>

text \<open>
  The storage calls of the course controller, each of which may throw:
  \<^verbatim>\<open>Bootcamp.findById\<close>, \<^verbatim>\<open>Course.findById\<close>, \<^verbatim>\<open>Course.create\<close>,
  \<^verbatim>\<open>Course.findByIdAndUpdate\<close> and \<^verbatim>\<open>course.remove\<close>.
\<close>

record storage =
  Bootcamp_findById :: "string option \<Rightarrow> exn + bootcamp_doc option"
  Course_findById :: "string option \<Rightarrow> exn + course_doc option"
  Course_create :: "body_obj \<Rightarrow> exn + course_doc"
  Course_findByIdAndUpdate :: "string option \<Rightarrow> body_obj \<Rightarrow> exn + course_doc option"
  course_remove :: "course_doc \<Rightarrow> exn + unit"

text \<open>A value that may be \<^verbatim>\<open>undefined\<close>, inside a template literal.\<close>

definition interpolate :: "string option \<Rightarrow> string" where
  "interpolate v = (case v of None \<Rightarrow> ''undefined'' | Some s \<Rightarrow> s)"

text \<open>
  \<^verbatim>\<open>createCourse\<close>. Destructuring \<^verbatim>\<open>req.user\<close> throws when it is
  \<^verbatim>\<open>undefined\<close>. The two assignments to \<^verbatim>\<open>req.body\<close> keep a property's
  place when it exists and append it otherwise, which is \<open>AList.update\<close>. The owner
  compared is the bootcamp's.
\<close>

definition createCourse :: "storage \<Rightarrow> request \<Rightarrow> outcome" where
  "createCourse db req =
     (case user req of
        None \<Rightarrow> Threw TypeError
      | Some u \<Rightarrow>
          (let body1 = AList.update ''bootcamp'' (bootcampID (params req)) (body req);
               body2 = AList.update ''user'' (Some (user_id u)) body1
           in case Bootcamp_findById db (bootcampID (params req)) of
                Inl e \<Rightarrow> Threw e
              | Inr None \<Rightarrow>
                  NextErr \<lparr>message = ''Bootcamp with ID '' @ interpolate (bootcampID (params req))
                                       @ '' is not found.'',
                           statusCode = 404\<rparr>
              | Inr (Some bootcamp) \<Rightarrow>
                  if bootcamp_user bootcamp \<noteq> user_id u \<and> role u \<noteq> ''admin''
                  then NextErr \<lparr>message = ''Permission denied to add a course to ''
                                           @ interpolate (bootcampID (params req)) @ ''.'',
                                statusCode = 403\<rparr>
                  else
                    (case Course_create db body2 of
                       Inl e \<Rightarrow> Threw e
                     | Inr course \<Rightarrow>
                         Sent \<lparr>status = 201, set_cookies = [],
                               json_body = Some (JObject [(''success'', JBool True),
                                                          (''data'', JCourse course)])\<rparr>)))"

text \<open>\<^verbatim>\<open>updateCourse\<close>: \<^verbatim>\<open>findByIdAndUpdate\<close> may answer \<^verbatim>\<open>null\<close>.\<close>

definition updateCourse :: "storage \<Rightarrow> request \<Rightarrow> outcome" where
  "updateCourse db req =
     (case user req of
        None \<Rightarrow> Threw TypeError
      | Some u \<Rightarrow>
          (case Course_findById db (param_id (params req)) of
             Inl e \<Rightarrow> Threw e
           | Inr None \<Rightarrow>
               NextErr \<lparr>message = ''Course with ID '' @ interpolate (param_id (params req))
                                    @ '' is not found.'',
                        statusCode = 404\<rparr>
           | Inr (Some course) \<Rightarrow>
               if course_user course \<noteq> user_id u \<and> role u \<noteq> ''admin''
               then NextErr \<lparr>message = ''Permission denied to update ''
                                        @ interpolate (param_id (params req)) @ ''.'',
                             statusCode = 403\<rparr>
               else
                 (case Course_findByIdAndUpdate db (param_id (params req)) (body req) of
                    Inl e \<Rightarrow> Threw e
                  | Inr updated \<Rightarrow>
                      Sent \<lparr>status = 200, set_cookies = [],
                            json_body =
                              Some (JObject [(''success'', JBool True),
                                             (''data'', case updated of None \<Rightarrow> JNull
                                                        | Some c \<Rightarrow> JCourse c)])\<rparr>)))"

text \<open>\<^verbatim>\<open>deleteCourse\<close>.\<close>

definition deleteCourse :: "storage \<Rightarrow> request \<Rightarrow> outcome" where
  "deleteCourse db req =
     (case user req of
        None \<Rightarrow> Threw TypeError
      | Some u \<Rightarrow>
          (case Course_findById db (param_id (params req)) of
             Inl e \<Rightarrow> Threw e
           | Inr None \<Rightarrow>
               NextErr \<lparr>message = ''Course with ID '' @ interpolate (param_id (params req))
                                    @ '' is not found.'',
                        statusCode = 404\<rparr>
           | Inr (Some course) \<Rightarrow>
               if course_user course \<noteq> user_id u \<and> role u \<noteq> ''admin''
               then NextErr \<lparr>message = ''Permission denied to delete ''
                                        @ interpolate (param_id (params req)) @ ''.'',
                             statusCode = 403\<rparr>
               else
                 (case course_remove db course of
                    Inl e \<Rightarrow> Threw e
                  | Inr _ \<Rightarrow>
                      Sent \<lparr>status = 200, set_cookies = [],
                            json_body = Some (JObject [(''success'', JBool True),
                                                       (''data'', JObject [])])\<rparr>)))"

section \<open>The Token Issuer\<close>

text \<open>
  \<^verbatim>\<open>new Date(value)\<close>: the time value in milliseconds, or an Invalid Date
  (\<open>None\<close>) when the value is \<^verbatim>\<open>NaN\<close> or lies more than 8.64e15 ms from the
  epoch.
\<close>

definition new_Date :: "int option \<Rightarrow> int option" where
  "new_Date v =
     (case v of
        None \<Rightarrow> None
      | Some t \<Rightarrow> if \<bar>t\<bar> \<le> 8640000000000000 then Some t else None)"

text \<open>
  \<^verbatim>\<open>sendTokenResponse(user, statusCode, res)\<close>. \<open>getSignedToken\<close> is the
  method \<^verbatim>\<open>user.getSignedToken()\<close>, which may throw, and \<open>now\<close> is what
  \<^verbatim>\<open>Date.now()\<close> reads when the cookie's date is computed, in milliseconds. The
  \<^verbatim>\<open>secure\<close> option is assigned in production only. \<^verbatim>\<open>res.cookie\<close> refuses an
  Invalid Date with a \<^verbatim>\<open>TypeError\<close>, and nothing is sent; otherwise the response
  is returned as the three chained calls leave it.
\<close>

definition sendTokenResponse ::
  "(user_doc \<Rightarrow> exn + string) \<Rightarrow> environment \<Rightarrow> int \<Rightarrow> user_doc \<Rightarrow> nat \<Rightarrow> response \<Rightarrow>
   exn + response" where
  "sendTokenResponse getSignedToken env now u code res =
     (case getSignedToken u of
        Inl e \<Rightarrow> Inl e
      | Inr tok \<Rightarrow>
          (case new_Date (map_option (\<lambda>days. now + days * 24 * 3600 * 1000)
                            (JWT_COOKIE_EXPIRES env)) of
             None \<Rightarrow> Inl TypeError
           | Some date \<Rightarrow>
               (let option = \<lparr>expires = date, httpOnly = True, secure = None\<rparr>;
                    option' = (if NODE_ENV env = ''Production''
                               then option\<lparr>secure := Some True\<rparr> else option)
                in Inr (res\<lparr>status := code,
                            set_cookies := set_cookies res @ [(''token'', tok, option')],
                            json_body := Some (JObject [(''success'', JBool True),
                                                        (''token'', JString tok)])\<rparr>))))"

section \<open>The session token\<close>

text \<open>
  Modelled from the spec: \<^verbatim>\<open>User.getSignedToken\<close> (the user model) and the
  jsonwebtoken library are not among the sources. The spec describes the Session Token
  as a signed string encoding the subject identifier, the issue time and the expiry,
  the expiry being the issue time plus the configured lifetime; the token is valid by
  signature and expiry alone. The claims the issuer embeds for a user when its clock
  reads \<open>now\<close> (milliseconds, as the cookie's date), for a lifetime of \<open>days\<close>:
\<close>

definition token_payload :: "int \<Rightarrow> int \<Rightarrow> user_doc \<Rightarrow> jwt_payload" where
  "token_payload days now u =
     \<lparr>payload_id = user_id u, iat = now, exp = now + days * 24 * 3600 * 1000\<rparr>"

text \<open>
  Modelled from the spec: the string that encodes claims and signature. The spec leaves
  its form open; here the identifier and the signature are written in hexadecimal, two
  digits a character, and the two times in decimal, the four joined by dots.
\<close>

definition hexdigit :: "nat \<Rightarrow> char" where
  "hexdigit k = char_of (if k < 10 then 48 + k else 87 + k)"

definition unhexdigit :: "char \<Rightarrow> nat" where
  "unhexdigit c = (if of_char c < (58::nat) then of_char c - 48 else of_char c - 87)"

definition hex :: "string \<Rightarrow> string" where
  "hex s = concat (map (\<lambda>c. [hexdigit (of_char c div 16), hexdigit (of_char c mod 16)]) s)"

fun unhex :: "string \<Rightarrow> string" where
  "unhex (a # b # r) = char_of (16 * unhexdigit a + unhexdigit b) # unhex r"
| "unhex r = []"

function digits :: "int \<Rightarrow> string" where
  "digits n =
     (if n < 10 then [char_of (48 + n)] else digits (n div 10) @ [char_of (48 + n mod 10)])"
  by pat_completeness auto
termination
  by (relation "measure nat") auto

declare digits.simps [simp del]

definition decimal :: "int \<Rightarrow> string" where
  "decimal n = (if n < 0 then CHR ''-'' # digits (- n) else digits n)"

definition digits_value :: "string \<Rightarrow> int" where
  "digits_value s = foldl (\<lambda>a c. 10 * a + (of_char c - 48)) 0 s"

definition number :: "string \<Rightarrow> int" where
  "number s =
     (case s of
        [] \<Rightarrow> 0
      | c # r \<Rightarrow> if c = CHR ''-'' then - digits_value r else digits_value s)"

definition serialize_token :: "jwt_payload \<times> string \<Rightarrow> string" where
  "serialize_token x =
     (case x of (p, sg) \<Rightarrow>
        hex (payload_id p) @ ''.'' @ decimal (iat p) @ ''.'' @ decimal (exp p) @ ''.'' @ hex sg)"

definition parse_token :: "string \<Rightarrow> (jwt_payload \<times> string) option" where
  "parse_token t =
     (case split t (CHR ''.'') of
        [i, a, b, sg] \<Rightarrow>
          Some (\<lparr>payload_id = unhex i, iat = number a, exp = number b\<rparr>, unhex sg)
      | _ \<Rightarrow> None)"

text \<open>
  Modelled from the spec: the missing \<^verbatim>\<open>getSignedToken\<close>, a deterministic signing
  of these claims with the configured secret, at the issuer's reading \<open>now\<close> of the
  clock. The keyed signature \<open>sign\<close> belongs to the library and is a parameter. The
  signing itself does not throw.
\<close>

definition getSignedToken ::
  "(string \<Rightarrow> jwt_payload \<Rightarrow> string) \<Rightarrow> string \<Rightarrow> int \<Rightarrow> int \<Rightarrow> user_doc \<Rightarrow> exn + string" where
  "getSignedToken sign secret days now u =
     (let p = token_payload days now u in Inr (serialize_token (p, sign secret p)))"

text \<open>
  Modelled from the spec: the missing \<^verbatim>\<open>jwt.verify\<close>, step 3 of the verifier's
  algorithm: a token that does not parse, whose signature is not the one the secret
  gives, or whose expiry has passed when the verifier's clock reads \<open>now\<close> throws;
  otherwise the claims are returned.
\<close>

definition jwt_verify_spec ::
  "(string \<Rightarrow> jwt_payload \<Rightarrow> string) \<Rightarrow> int \<Rightarrow> string \<Rightarrow> string \<Rightarrow> exn + jwt_payload" where
  "jwt_verify_spec sign now tok secret =
     (case parse_token tok of
        None \<Rightarrow> Inl (JsonWebTokenError ''jwt malformed'')
      | Some (p, sg) \<Rightarrow>
          if sg \<noteq> sign secret p then Inl (JsonWebTokenError ''invalid signature'')
          else if exp p \<le> now then Inl (JsonWebTokenError ''jwt expired'')
          else Inr p)"

section \<open>Reading outcomes\<close>

text \<open>The same outcome, had the request carried the cookies \<open>c\<close>.\<close>

definition with_cookies :: "cookies_rec \<Rightarrow> outcome \<Rightarrow> outcome" where
  "with_cookies c out = (case out of Next r \<Rightarrow> Next (r\<lparr>cookies := c\<rparr>) | _ \<Rightarrow> out)"

text \<open>
  An outcome of the 5xx class: an exception that leaves the function, or an
  \<open>ErrorResponse\<close> whose status is from 500 to 599.
\<close>

definition is_internal_failure :: "outcome \<Rightarrow> bool" where
  "is_internal_failure out =
     (case out of
        Threw e \<Rightarrow> True
      | NextErr err \<Rightarrow> 500 \<le> statusCode err \<and> statusCode err < 600
      | _ \<Rightarrow> False)"

section \<open>Example inputs\<close>

definition demo_env :: environment where
  "demo_env = \<lparr>JWT_SECRET = ''s3cret'', JWT_COOKIE_EXPIRES = Some 30, NODE_ENV = ''development''\<rparr>"

definition publisher :: user_doc where
  "publisher = \<lparr>user_id = ''607c2e7951e97dcba431a3b8'', role = ''publisher'',
                 user_name = ''Pat'', email = ''pat@devworks.com''\<rparr>"

definition admin :: user_doc where
  "admin = \<lparr>user_id = ''5c8a1d5b0190b214360dc031'', role = ''admin'',
             user_name = ''Ada'', email = ''ada@devworks.com''\<rparr>"

definition plain_user :: user_doc where
  "plain_user = \<lparr>user_id = ''5c8a1d5b0190b214360dc040'', role = ''user'',
                  user_name = ''Uma'', email = ''uma@devworks.com''\<rparr>"

definition req_anonymous :: request where
  "req_anonymous =
     \<lparr>headers = \<lparr>authorization = None\<rparr>, cookies = \<lparr>token = None\<rparr>,
      params = \<lparr>bootcampID = None, param_id = None\<rparr>, body = [], user = None\<rparr>"

definition req_bearer :: request where
  "req_bearer = req_anonymous\<lparr>headers := \<lparr>authorization = Some ''Bearer good.token''\<rparr>\<rparr>"

definition req_issued :: request where
  "req_issued =
     req_anonymous\<lparr>headers := \<lparr>authorization = Some (''Bearer '' @
       ''363037633265373935316539376463626134333161336238.1000.2592001000.32353932303034323738'')\<rparr>\<rparr>"

definition req_expired :: request where
  "req_expired =
     req_anonymous\<lparr>headers := \<lparr>authorization = Some (''Bearer '' @
       ''363037633265373935316539376463626134333161336238.1000.1000.34323738'')\<rparr>\<rparr>"

definition req_cookie_only :: request where
  "req_cookie_only = req_anonymous\<lparr>cookies := \<lparr>token = Some ''good.token''\<rparr>\<rparr>"

text \<open>A verifier that accepts one token, for the publisher.\<close>

definition toy_payload :: jwt_payload where
  "toy_payload = \<lparr>payload_id = ''607c2e7951e97dcba431a3b8'', iat = 0, exp = 1\<rparr>"

definition toy_verify :: "string \<Rightarrow> string \<Rightarrow> exn + jwt_payload" where
  "toy_verify tok secret =
     (if tok = ''good.token'' \<and> secret = ''s3cret'' then Inr toy_payload
      else Inl (JsonWebTokenError ''invalid token''))"

text \<open>User storage: with the publisher in it, empty, and unreachable.\<close>

definition users_one :: "string \<Rightarrow> exn + user_doc option" where
  "users_one i = (if i = ''607c2e7951e97dcba431a3b8'' then Inr (Some publisher) else Inr None)"

definition users_empty :: "string \<Rightarrow> exn + user_doc option" where
  "users_empty i = Inr None"

definition users_down :: "string \<Rightarrow> exn + user_doc option" where
  "users_down i = Inl (StorageError ''connection refused'')"

text \<open>A bootcamp and a course of the publisher, and a storage that holds them.\<close>

definition devworks :: bootcamp_doc where
  "devworks = \<lparr>bootcamp_id = ''5d713995b721c3bb38c1f5d0'',
                bootcamp_user = ''607c2e7951e97dcba431a3b8'',
                bootcamp_name = ''Devworks Bootcamp''\<rparr>"

definition frontend :: course_doc where
  "frontend = \<lparr>course_id = ''5d725a4a7b292f5f8ceff789'',
                course_user = ''607c2e7951e97dcba431a3b8'',
                course_bootcamp = ''5d713995b721c3bb38c1f5d0'',
                course_title = ''Front End Web Development''\<rparr>"

definition demo_db :: storage where
  "demo_db =
     \<lparr>Bootcamp_findById = (\<lambda>i. if i = Some ''5d713995b721c3bb38c1f5d0'' then Inr (Some devworks)
                                else Inr None),
      Course_findById = (\<lambda>i. if i = Some ''5d725a4a7b292f5f8ceff789'' then Inr (Some frontend)
                              else Inr None),
      Course_create = (\<lambda>b. Inr frontend),
      Course_findByIdAndUpdate = (\<lambda>i b. Inr (Some frontend)),
      course_remove = (\<lambda>c. Inr ())\<rparr>"

definition req_course :: "user_doc \<Rightarrow> request" where
  "req_course u =
     req_anonymous\<lparr>params := \<lparr>bootcampID = Some ''5d713995b721c3bb38c1f5d0'',
                                 param_id = Some ''5d725a4a7b292f5f8ceff789''\<rparr>,
                    user := Some u\<rparr>"

definition res_fresh :: response where
  "res_fresh = \<lparr>status = 200, set_cookies = [], json_body = None\<rparr>"

text \<open>
  A keyed checksum stands for the library's signature in the examples; no statement
  about the program depends on it.
\<close>

definition checksum :: "string \<Rightarrow> jwt_payload \<Rightarrow> string" where
  "checksum secret p =
     decimal (sum_list (map of_char (secret @ payload_id p)) + iat p + exp p)"

text \<open>Configurations with a lifetime of no days and of a hundred million days.\<close>

definition env_no_lifetime :: environment where
  "env_no_lifetime = demo_env\<lparr>JWT_COOKIE_EXPIRES := Some 0\<rparr>"

definition env_far_future :: environment where
  "env_far_future = demo_env\<lparr>JWT_COOKIE_EXPIRES := Some 100000000\<rparr>"

section \<open>Facts about the string primitives\<close>

lemma split_without_separator: "c \<notin> set s \<Longrightarrow> split s c = [s]"
  by (induction s) auto

lemma split_at_first_separator:
  "c \<notin> set p \<Longrightarrow> split (p @ c # s) c = p # split s c"
  by (induction p) auto

lemma bearer_token_of_header:
  assumes "authorization (headers req) = Some (''Bearer '' @ tok)"
    and "CHR '' '' \<notin> set tok"
  shows "bearer_token req = Some tok"
proof -
  have "split (''Bearer'' @ CHR '' '' # tok) (CHR '' '') = ''Bearer'' # split tok (CHR '' '')"
    by (rule split_at_first_separator) simp
  with assms(2) have "split (''Bearer '' @ tok) (CHR '' '') = [''Bearer'', tok]"
    by (simp add: split_without_separator)
  with assms(1) show ?thesis
    by (simp add: bearer_token_def startsWith_def at_index_def)
qed

lemma bearer_token_cookies [simp]: "bearer_token (req\<lparr>cookies := c\<rparr>) = bearer_token req"
  by (simp add: bearer_token_def)

lemma no_bearer_header:
  assumes "\<forall>a. authorization (headers req) = Some a \<longrightarrow> \<not> startsWith a ''Bearer''"
  shows "bearer_token req = None"
  using assms by (cases "authorization (headers req)") (auto simp: bearer_token_def)

lemma bearer_token_req_bearer: "bearer_token req_bearer = Some ''good.token''"
  by (simp add: bearer_token_def req_bearer_def req_anonymous_def startsWith_def at_index_def)

lemma bearer_token_req_anonymous: "bearer_token req_anonymous = None"
  by (simp add: bearer_token_def req_anonymous_def)

lemmas bearer_examples = bearer_token_req_bearer bearer_token_req_anonymous

section \<open>The Token Verifier\<close>

text \<open>
  Claim C1, as it is written, asks for one message in every failure mode. The source
  answers a verified token whose subject is gone with a message of its own: the two
  rejections below differ in their text, though not in their status.
\<close>

theorem protect_message_not_uniform:
  "protect toy_verify users_empty demo_env req_bearer
     = NextErr \<lparr>message = ''Token is not associated with a user anymore.'', statusCode = 401\<rparr>
   \<and> protect toy_verify users_empty demo_env req_anonymous
     = NextErr \<lparr>message = ''Not authorized to access this resource.'', statusCode = 401\<rparr>
   \<and> protect toy_verify users_empty demo_env req_bearer
     \<noteq> protect toy_verify users_empty demo_env req_anonymous"
  by (simp add: protect_def bearer_examples toy_verify_def demo_env_def users_empty_def
      toy_payload_def NO_LONGER_A_USER_def UNAUTHORIZED_def)

text \<open>
  Claim C1, amended: whenever the credential fails (no token extracted from the
  Authorization header, a token that \<^verbatim>\<open>jwt.verify\<close> refuses, or a verified token
  whose subject is not in storage) the verifier rejects with status 401. The message is
  the generic one in the first two cases and names the lost association in the third.
  No rejection of the verifier carries another status, and it never throws.
\<close>

theorem protect_rejects_401:
  "(bearer_token req = None \<or> bearer_token req = Some [] \<longrightarrow>
      protect jv fb env req = NextErr \<lparr>message = UNAUTHORIZED, statusCode = 401\<rparr>)
   \<and> (bearer_token req = Some tok \<and> tok \<noteq> [] \<and> jv tok (JWT_SECRET env) = Inl e \<longrightarrow>
      protect jv fb env req = NextErr \<lparr>message = UNAUTHORIZED, statusCode = 401\<rparr>)
   \<and> (bearer_token req = Some tok \<and> tok \<noteq> [] \<and> jv tok (JWT_SECRET env) = Inr d
        \<and> fb (payload_id d) = Inr None \<longrightarrow>
      protect jv fb env req = NextErr \<lparr>message = NO_LONGER_A_USER, statusCode = 401\<rparr>)
   \<and> (\<forall>err. protect jv fb env req = NextErr err \<longrightarrow> statusCode err = 401)
   \<and> (\<forall>x. protect jv fb env req \<noteq> Threw x)"
  by (auto simp: protect_def split: option.splits sum.splits)

text \<open>The three failure modes at concrete requests.\<close>

theorem protect_rejects_401_witness:
  "bearer_token req_anonymous = None
   \<and> protect toy_verify users_one demo_env req_anonymous
       = NextErr \<lparr>message = UNAUTHORIZED, statusCode = 401\<rparr>
   \<and> bearer_token req_bearer = Some ''good.token''
   \<and> toy_verify ''good.token'' (JWT_SECRET (demo_env\<lparr>JWT_SECRET := ''other''\<rparr>))
       = Inl (JsonWebTokenError ''invalid token'')
   \<and> protect toy_verify users_one (demo_env\<lparr>JWT_SECRET := ''other''\<rparr>) req_bearer
       = NextErr \<lparr>message = UNAUTHORIZED, statusCode = 401\<rparr>
   \<and> toy_verify ''good.token'' (JWT_SECRET demo_env) = Inr toy_payload
   \<and> users_empty (payload_id toy_payload) = Inr None
   \<and> protect toy_verify users_empty demo_env req_bearer
       = NextErr \<lparr>message = NO_LONGER_A_USER, statusCode = 401\<rparr>"
  using protect_rejects_401 [where req = req_anonymous and jv = toy_verify and fb = users_one
      and env = demo_env]
    protect_rejects_401 [where req = req_bearer and tok = "''good.token''" and jv = toy_verify
      and env = "demo_env\<lparr>JWT_SECRET := ''other''\<rparr>"
      and e = "JsonWebTokenError ''invalid token''" and fb = users_one]
    protect_rejects_401 [where req = req_bearer and tok = "''good.token''" and jv = toy_verify
      and env = demo_env and d = toy_payload and fb = users_empty]
  by (simp add: bearer_examples toy_verify_def demo_env_def users_empty_def)

text \<open>
  Claim C3, as it is written, asks for a storage failure to surface as a 5xx. With a
  token that verifies and a storage that throws, the verifier answers 401 with the
  generic message.
\<close>

theorem protect_storage_failure_is_401:
  "toy_verify ''good.token'' (JWT_SECRET demo_env) = Inr toy_payload
   \<and> users_down (payload_id toy_payload) = Inl (StorageError ''connection refused'')
   \<and> protect toy_verify users_down demo_env req_bearer
       = NextErr \<lparr>message = ''Not authorized to access this resource.'', statusCode = 401\<rparr>
   \<and> \<not> is_internal_failure (protect toy_verify users_down demo_env req_bearer)"
  by (simp add: protect_def bearer_examples toy_verify_def demo_env_def users_down_def
      UNAUTHORIZED_def is_internal_failure_def)

text \<open>
  Claim C3, amended: when the lookup of the verified token's subject throws, the
  \<^verbatim>\<open>catch\<close> that surrounds verification and lookup alike turns the exception
  into the rejection with status 401 and the generic message.
\<close>

theorem protect_storage_failure_caught:
  assumes "bearer_token req = Some tok" and "tok \<noteq> []"
    and "jv tok (JWT_SECRET env) = Inr d"
    and "fb (payload_id d) = Inl e"
  shows "protect jv fb env req = NextErr \<lparr>message = UNAUTHORIZED, statusCode = 401\<rparr>"
  using assms by (simp add: protect_def)

text \<open>A verified token against an unreachable storage.\<close>

theorem protect_storage_failure_caught_witness:
  "bearer_token req_bearer = Some ''good.token''
   \<and> toy_verify ''good.token'' (JWT_SECRET demo_env) = Inr toy_payload
   \<and> users_down (payload_id toy_payload) = Inl (StorageError ''connection refused'')
   \<and> protect toy_verify users_down demo_env req_bearer
       = NextErr \<lparr>message = UNAUTHORIZED, statusCode = 401\<rparr>"
proof -
  have a: "bearer_token req_bearer = Some ''good.token''"
    by (simp add: bearer_examples)
  have b: "''good.token'' \<noteq> []"
    by simp
  have c: "toy_verify ''good.token'' (JWT_SECRET demo_env) = Inr toy_payload"
    by (simp add: toy_verify_def demo_env_def)
  have d: "users_down (payload_id toy_payload) = Inl (StorageError ''connection refused'')"
    by (simp add: users_down_def)
  from protect_storage_failure_caught [where jv = toy_verify and fb = users_down, OF a b c d]
    a c d
  show ?thesis
    by simp
qed

text \<open>
  Claim C4: when the token extracted from the Authorization header verifies against
  the configured secret and the subject of its payload is found in storage, the
  verifier passes the request on with the user found attached as \<^verbatim>\<open>req.user\<close>
  and nothing else changed.
\<close>

theorem protect_attaches_user:
  assumes "bearer_token req = Some tok" and "tok \<noteq> []"
    and "jv tok (JWT_SECRET env) = Inr d"
    and "fb (payload_id d) = Inr (Some u)"
  shows "protect jv fb env req = Next (req\<lparr>user := Some u\<rparr>)"
  using assms by (simp add: protect_def)

text \<open>The header \<^verbatim>\<open>Bearer good.token\<close> with the publisher in storage.\<close>

theorem protect_attaches_user_witness:
  "bearer_token req_bearer = Some ''good.token''
   \<and> toy_verify ''good.token'' (JWT_SECRET demo_env) = Inr toy_payload
   \<and> users_one (payload_id toy_payload) = Inr (Some publisher)
   \<and> protect toy_verify users_one demo_env req_bearer = Next (req_bearer\<lparr>user := Some publisher\<rparr>)"
proof -
  have a: "bearer_token req_bearer = Some ''good.token''"
    by (simp add: bearer_examples)
  have b: "''good.token'' \<noteq> []"
    by simp
  have c: "toy_verify ''good.token'' (JWT_SECRET demo_env) = Inr toy_payload"
    by (simp add: toy_verify_def demo_env_def)
  have d: "users_one (payload_id toy_payload) = Inr (Some publisher)"
    by (simp add: users_one_def toy_payload_def)
  from protect_attaches_user [where jv = toy_verify and fb = users_one, OF a b c d] a c d
  show ?thesis
    by simp
qed

text \<open>
  Claim C10: a request with no Authorization header, or with one that does not start
  with \<^verbatim>\<open>Bearer\<close>, is rejected with 401 and the generic message even when its
  \<^verbatim>\<open>token\<close> cookie holds a token. The verifier never reads the cookies:
  replacing them changes its outcome only in the cookies of the request passed on.
\<close>

theorem protect_ignores_cookie:
  assumes "\<forall>a. authorization (headers req) = Some a \<longrightarrow> \<not> startsWith a ''Bearer''"
  shows "protect jv fb env (req\<lparr>cookies := \<lparr>token = Some t\<rparr>\<rparr>)
           = NextErr \<lparr>message = UNAUTHORIZED, statusCode = 401\<rparr>
         \<and> (\<forall>r c. protect jv fb env (r\<lparr>cookies := c\<rparr>) = with_cookies c (protect jv fb env r))"
proof
  from assms have "bearer_token req = None"
    by (rule no_bearer_header)
  then show "protect jv fb env (req\<lparr>cookies := \<lparr>token = Some t\<rparr>\<rparr>)
           = NextErr \<lparr>message = UNAUTHORIZED, statusCode = 401\<rparr>"
    by (simp add: protect_def)
next
  show "\<forall>r c. protect jv fb env (r\<lparr>cookies := c\<rparr>) = with_cookies c (protect jv fb env r)"
    by (simp add: protect_def with_cookies_def split: option.splits sum.splits)
qed

text \<open>A request whose only credential is the cookie.\<close>

theorem protect_ignores_cookie_witness:
  "authorization (headers req_anonymous) = None
   \<and> token (cookies req_cookie_only) = Some ''good.token''
   \<and> req_anonymous\<lparr>cookies := \<lparr>token = Some ''good.token''\<rparr>\<rparr> = req_cookie_only
   \<and> protect toy_verify users_one demo_env req_cookie_only
       = NextErr \<lparr>message = UNAUTHORIZED, statusCode = 401\<rparr>"
proof -
  have none: "authorization (headers req_anonymous) = None"
    by (simp add: req_anonymous_def)
  then have a: "\<forall>a. authorization (headers req_anonymous) = Some a \<longrightarrow> \<not> startsWith a ''Bearer''"
    by simp
  have "protect toy_verify users_one demo_env
          (req_anonymous\<lparr>cookies := \<lparr>token = Some ''good.token''\<rparr>\<rparr>)
        = NextErr \<lparr>message = UNAUTHORIZED, statusCode = 401\<rparr>"
    using protect_ignores_cookie [OF a] by (rule conjunct1)
  with none show ?thesis
    by (simp add: req_cookie_only_def)
qed

section \<open>The Role Authorizer\<close>

text \<open>
  Claim C2: on a request without \<^verbatim>\<open>req.user\<close> the authorizer throws a
  \<^verbatim>\<open>TypeError\<close>; whatever the allowed roles, it does not pass the request on.
\<close>

theorem authorize_fails_closed:
  assumes "user req = None"
  shows "authorize roles req = Threw TypeError \<and> (\<forall>r. authorize roles req \<noteq> Next r)"
  using assms by (simp add: authorize_def)

text \<open>A request the verifier never saw.\<close>

theorem authorize_fails_closed_witness:
  "user req_bearer = None
   \<and> authorize [''publisher'', ''admin''] req_bearer = Threw TypeError
   \<and> (\<forall>r. authorize [''publisher'', ''admin''] req_bearer \<noteq> Next r)"
proof -
  have a: "user req_bearer = None"
    by (simp add: req_bearer_def req_anonymous_def)
  from authorize_fails_closed [OF a, of "[''publisher'', ''admin'']"] a show ?thesis
    by simp
qed

text \<open>
  Claim C5: on a request with an identity, the authorizer rejects with status 403 and
  the insufficient-permission message exactly when the identity's role is not among the
  allowed roles, and passes the request on exactly when it is.
\<close>

theorem authorize_role_check:
  assumes "user req = Some u"
  shows "(authorize roles req = NextErr \<lparr>message = FORBIDDEN, statusCode = 403\<rparr>)
           = (role u \<notin> set roles)
         \<and> (authorize roles req = Next req) = (role u \<in> set roles)
         \<and> (\<forall>x. authorize roles req \<noteq> Threw x)"
  using assms by (simp add: authorize_def)

text \<open>A plain user and an admin at a route for publishers and admins.\<close>

theorem authorize_role_check_witness:
  "user (req_course plain_user) = Some plain_user
   \<and> role plain_user \<notin> set [''publisher'', ''admin'']
   \<and> authorize [''publisher'', ''admin''] (req_course plain_user)
       = NextErr \<lparr>message = FORBIDDEN, statusCode = 403\<rparr>
   \<and> user (req_course admin) = Some admin
   \<and> role admin \<in> set [''publisher'', ''admin'']
   \<and> authorize [''publisher'', ''admin''] (req_course admin) = Next (req_course admin)"
proof -
  have a: "user (req_course plain_user) = Some plain_user"
    and b: "user (req_course admin) = Some admin"
    by (simp_all add: req_course_def)
  have c: "role plain_user \<notin> set [''publisher'', ''admin'']"
    and d: "role admin \<in> set [''publisher'', ''admin'']"
    by (simp_all add: plain_user_def admin_def)
  from authorize_role_check [OF a, of "[''publisher'', ''admin'']"]
    authorize_role_check [OF b, of "[''publisher'', ''admin'']"] a b c d
  show ?thesis
    by simp
qed

text \<open>
  Claim C9: when the identity's role is among the allowed roles, the request the
  authorizer passes on is the request it received: headers, cookies, parameters, body
  and identity are the same. The authorizer has no access to anything else.
\<close>

theorem authorize_leaves_request:
  assumes "user req = Some u" and "role u \<in> set roles"
  shows "authorize roles req = Next req
         \<and> (\<forall>r. authorize roles req = Next r \<longrightarrow>
               headers r = headers req \<and> cookies r = cookies req \<and> params r = params req
               \<and> body r = body req \<and> user r = Some u)"
  using assms by (simp add: authorize_def)

text \<open>The publisher at a route for publishers and admins.\<close>

theorem authorize_leaves_request_witness:
  "user (req_course publisher) = Some publisher
   \<and> role publisher \<in> set [''publisher'', ''admin'']
   \<and> authorize [''publisher'', ''admin''] (req_course publisher) = Next (req_course publisher)"
proof -
  have a: "user (req_course publisher) = Some publisher"
    by (simp add: req_course_def)
  have b: "role publisher \<in> set [''publisher'', ''admin'']"
    by (simp add: publisher_def)
  from authorize_leaves_request [OF a b] a b show ?thesis
    by simp
qed

section \<open>The ownership checks\<close>

text \<open>
  Claim C7: in \<^verbatim>\<open>createCourse\<close>, \<^verbatim>\<open>updateCourse\<close> and \<^verbatim>\<open>deleteCourse\<close>,
  once the resource is found, an identity whose role is \<^verbatim>\<open>admin\<close> gets past the
  ownership check whoever owns the resource: the handler goes on to the storage
  operation and answers with its result. An identity that is neither admin nor the
  owner is rejected with status 403.
\<close>

theorem ownership_admin_override:
  assumes "user req = Some u"
  shows
    "(Bootcamp_findById db (bootcampID (params req)) = Inr (Some b) \<longrightarrow>
        (role u = ''admin'' \<longrightarrow>
           createCourse db req =
             (case Course_create db
                     (AList.update ''user'' (Some (user_id u))
                        (AList.update ''bootcamp'' (bootcampID (params req)) (body req))) of
                Inl e \<Rightarrow> Threw e
              | Inr course \<Rightarrow>
                  Sent \<lparr>status = 201, set_cookies = [],
                        json_body = Some (JObject [(''success'', JBool True),
                                                   (''data'', JCourse course)])\<rparr>))
        \<and> (role u \<noteq> ''admin'' \<and> bootcamp_user b \<noteq> user_id u \<longrightarrow>
             createCourse db req =
               NextErr \<lparr>message = ''Permission denied to add a course to ''
                                    @ interpolate (bootcampID (params req)) @ ''.'',
                        statusCode = 403\<rparr>))
     \<and> (Course_findById db (param_id (params req)) = Inr (Some c) \<longrightarrow>
        (role u = ''admin'' \<longrightarrow>
           updateCourse db req =
             (case Course_findByIdAndUpdate db (param_id (params req)) (body req) of
                Inl e \<Rightarrow> Threw e
              | Inr updated \<Rightarrow>
                  Sent \<lparr>status = 200, set_cookies = [],
                        json_body =
                          Some (JObject [(''success'', JBool True),
                                         (''data'', case updated of None \<Rightarrow> JNull
                                                    | Some c' \<Rightarrow> JCourse c')])\<rparr>)
           \<and> deleteCourse db req =
             (case course_remove db c of
                Inl e \<Rightarrow> Threw e
              | Inr _ \<Rightarrow>
                  Sent \<lparr>status = 200, set_cookies = [],
                        json_body = Some (JObject [(''success'', JBool True),
                                                   (''data'', JObject [])])\<rparr>))
        \<and> (role u \<noteq> ''admin'' \<and> course_user c \<noteq> user_id u \<longrightarrow>
             updateCourse db req =
               NextErr \<lparr>message = ''Permission denied to update ''
                                    @ interpolate (param_id (params req)) @ ''.'',
                        statusCode = 403\<rparr>
             \<and> deleteCourse db req =
               NextErr \<lparr>message = ''Permission denied to delete ''
                                    @ interpolate (param_id (params req)) @ ''.'',
                        statusCode = 403\<rparr>))"
  using assms
  by (simp add: createCourse_def updateCourse_def deleteCourse_def Let_def)

text \<open>
  The admin and a plain user, neither of whom owns the bootcamp or the course, at the
  three handlers.
\<close>

theorem ownership_admin_override_witness:
  "user (req_course admin) = Some admin \<and> role admin = ''admin''
   \<and> bootcamp_user devworks \<noteq> user_id admin \<and> course_user frontend \<noteq> user_id admin
   \<and> createCourse demo_db (req_course admin)
       = Sent \<lparr>status = 201, set_cookies = [],
               json_body = Some (JObject [(''success'', JBool True),
                                          (''data'', JCourse frontend)])\<rparr>
   \<and> updateCourse demo_db (req_course admin)
       = Sent \<lparr>status = 200, set_cookies = [],
               json_body = Some (JObject [(''success'', JBool True),
                                          (''data'', JCourse frontend)])\<rparr>
   \<and> deleteCourse demo_db (req_course admin)
       = Sent \<lparr>status = 200, set_cookies = [],
               json_body = Some (JObject [(''success'', JBool True), (''data'', JObject [])])\<rparr>
   \<and> user (req_course plain_user) = Some plain_user \<and> role plain_user \<noteq> ''admin''
   \<and> bootcamp_user devworks \<noteq> user_id plain_user
   \<and> course_user frontend \<noteq> user_id plain_user
   \<and> createCourse demo_db (req_course plain_user)
       = NextErr \<lparr>message = ''Permission denied to add a course to 5d713995b721c3bb38c1f5d0.'',
                  statusCode = 403\<rparr>
   \<and> updateCourse demo_db (req_course plain_user)
       = NextErr \<lparr>message = ''Permission denied to update 5d725a4a7b292f5f8ceff789.'',
                  statusCode = 403\<rparr>
   \<and> deleteCourse demo_db (req_course plain_user)
       = NextErr \<lparr>message = ''Permission denied to delete 5d725a4a7b292f5f8ceff789.'',
                  statusCode = 403\<rparr>"
proof -
  have a: "user (req_course admin) = Some admin"
    and p: "user (req_course plain_user) = Some plain_user"
    by (simp_all add: req_course_def)
  have lookups:
    "Bootcamp_findById demo_db (bootcampID (params (req_course admin))) = Inr (Some devworks)"
    "Course_findById demo_db (param_id (params (req_course admin))) = Inr (Some frontend)"
    "Bootcamp_findById demo_db (bootcampID (params (req_course plain_user))) = Inr (Some devworks)"
    "Course_findById demo_db (param_id (params (req_course plain_user))) = Inr (Some frontend)"
    by (simp_all add: demo_db_def req_course_def)
  have rest:
    "Course_create demo_db bd = Inr frontend"
    "Course_findByIdAndUpdate demo_db i bd = Inr (Some frontend)"
    "course_remove demo_db frontend = Inr ()"
    "interpolate (bootcampID (params (req_course plain_user))) = ''5d713995b721c3bb38c1f5d0''"
    "interpolate (param_id (params (req_course plain_user))) = ''5d725a4a7b292f5f8ceff789''"
    for bd i
    by (simp_all add: demo_db_def req_course_def interpolate_def)
  have roles:
    "role admin = ''admin''" "role plain_user \<noteq> ''admin''"
    "bootcamp_user devworks \<noteq> user_id admin" "course_user frontend \<noteq> user_id admin"
    "bootcamp_user devworks \<noteq> user_id plain_user"
    "course_user frontend \<noteq> user_id plain_user"
    by (simp_all add: admin_def plain_user_def devworks_def frontend_def)
  from ownership_admin_override [OF a, where db = demo_db and b = devworks and c = frontend]
    ownership_admin_override [OF p, where db = demo_db and b = devworks and c = frontend]
    a p lookups roles
  show ?thesis
    by (simp add: rest)
qed

section \<open>The string form of a token\<close>

lemma of_char_hexdigit:
  "k < 16 \<Longrightarrow> of_char (hexdigit k) = (if k < 10 then 48 + k else 87 + k)"
  by (simp add: hexdigit_def)

lemma unhexdigit_hexdigit: "k < 16 \<Longrightarrow> unhexdigit (hexdigit k) = k"
  by (simp add: unhexdigit_def of_char_hexdigit)

lemma hexdigit_plain:
  assumes "k < 16"
  shows "hexdigit k \<noteq> CHR ''.'' \<and> hexdigit k \<noteq> CHR '' ''"
proof -
  have "(of_char (hexdigit k) :: nat) \<noteq> of_char (CHR ''.'')"
    "(of_char (hexdigit k) :: nat) \<noteq> of_char (CHR '' '')"
    using assms by (simp_all add: of_char_hexdigit)
  then show ?thesis
    by auto
qed

lemma unhex_char:
  "char_of (16 * unhexdigit (hexdigit (of_char c div 16))
            + unhexdigit (hexdigit (of_char c mod 16))) = c"
proof -
  have "(of_char c :: nat) < 256"
    by simp
  then have "(of_char c :: nat) div 16 < 16"
    by arith
  then show ?thesis
    by (simp add: unhexdigit_hexdigit)
qed

lemma unhex_hex: "unhex (hex s) = s"
  by (induction s) (simp_all add: hex_def unhex_char)

lemma hex_chars:
  assumes "c \<in> set (hex s)"
  shows "\<exists>k<16. c = hexdigit k"
proof -
  from assms obtain x where
    "c = hexdigit (of_char x div 16) \<or> c = hexdigit (of_char x mod 16)"
    by (auto simp: hex_def)
  moreover have "(of_char x :: nat) < 256"
    by simp
  then have "(of_char x :: nat) div 16 < 16"
    by arith
  moreover have "(of_char x :: nat) mod 16 < 16"
    by simp
  ultimately show ?thesis
    by blast
qed

lemma hex_plain: "CHR ''.'' \<notin> set (hex s) \<and> CHR '' '' \<notin> set (hex s)"
proof (intro conjI notI)
  assume "CHR ''.'' \<in> set (hex s)"
  from hex_chars [OF this] obtain k where "k < 16" and "CHR ''.'' = hexdigit k"
    by (elim exE conjE)
  with hexdigit_plain [of k] show False
    by simp
next
  assume "CHR '' '' \<in> set (hex s)"
  from hex_chars [OF this] obtain k where "k < 16" and "CHR '' '' = hexdigit k"
    by (elim exE conjE)
  with hexdigit_plain [of k] show False
    by simp
qed

lemma digits_value_snoc: "digits_value (s @ [c]) = 10 * digits_value s + (of_char c - 48)"
  by (simp add: digits_value_def)

lemma digits_value_digits: "0 \<le> n \<Longrightarrow> digits_value (digits n) = n"
proof (induction n rule: digits.induct)
  case (1 n)
  show ?case
  proof (cases "n < 10")
    case True
    then have "digits n = [char_of (48 + n)]"
      by (subst digits.simps) simp
    with "1.prems" True show ?thesis
      by (simp add: digits_value_def)
  next
    case False
    with "1.prems" have "digits_value (digits (n div 10)) = n div 10"
      by (intro "1.IH") simp_all
    moreover have "digits n = digits (n div 10) @ [char_of (48 + n mod 10)]"
      using False by (subst digits.simps) simp
    ultimately show ?thesis
      by (simp add: digits_value_snoc)
  qed
qed

lemma digit_char_plain:
  assumes "0 \<le> d" and "d < 10"
  shows "char_of (48 + d :: int) \<noteq> CHR ''.'' \<and> char_of (48 + d) \<noteq> CHR '' ''
         \<and> char_of (48 + d) \<noteq> CHR ''-''"
proof -
  have v: "(of_char (char_of (48 + d)) :: int) = 48 + d"
    using assms by simp
  have "char_of (48 + d) \<noteq> c" if "(of_char c :: int) < 48" for c
  proof
    assume "char_of (48 + d) = c"
    then have "(of_char (char_of (48 + d)) :: int) = of_char c"
      by (simp only:)
    with v that assms show False
      by simp
  qed
  then show ?thesis
    by simp
qed

lemma digits_plain:
  "0 \<le> n \<Longrightarrow>
     digits n \<noteq> [] \<and> CHR ''.'' \<notin> set (digits n) \<and> CHR '' '' \<notin> set (digits n)
     \<and> CHR ''-'' \<notin> set (digits n)"
proof (induction n rule: digits.induct)
  case (1 n)
  show ?case
  proof (cases "n < 10")
    case True
    then have "digits n = [char_of (48 + n)]"
      by (subst digits.simps) simp
    with "1.prems" True digit_char_plain [of n] show ?thesis
      by auto
  next
    case False
    with "1.prems" have "digits (n div 10) \<noteq> [] \<and> CHR ''.'' \<notin> set (digits (n div 10))
        \<and> CHR '' '' \<notin> set (digits (n div 10)) \<and> CHR ''-'' \<notin> set (digits (n div 10))"
      by (intro "1.IH") simp_all
    moreover have "digits n = digits (n div 10) @ [char_of (48 + n mod 10)]"
      using False by (subst digits.simps) simp
    moreover have "char_of (48 + n mod 10) \<noteq> CHR ''.'' \<and> char_of (48 + n mod 10) \<noteq> CHR '' ''
        \<and> char_of (48 + n mod 10) \<noteq> CHR ''-''"
      by (rule digit_char_plain) simp_all
    ultimately show ?thesis
      by auto
  qed
qed

lemma number_decimal: "number (decimal n) = n"
proof (cases "n < 0")
  case True
  then show ?thesis
    by (simp add: number_def decimal_def digits_value_digits)
next
  case False
  then have "0 \<le> n"
    by simp
  with digits_plain [of n] obtain c r where cr: "digits n = c # r" and "c \<noteq> CHR ''-''"
    by (cases "digits n") auto
  with \<open>0 \<le> n\<close> digits_value_digits [of n] show ?thesis
    by (simp add: number_def decimal_def)
qed

lemma decimal_plain:
  "decimal n \<noteq> [] \<and> CHR ''.'' \<notin> set (decimal n) \<and> CHR '' '' \<notin> set (decimal n)"
proof (cases "n < 0")
  case True
  with digits_plain [of "- n"] show ?thesis
    by (auto simp: decimal_def)
next
  case False
  with digits_plain [of n] show ?thesis
    by (auto simp: decimal_def)
qed

lemma parse_serialize_token: "parse_token (serialize_token (p, sg)) = Some (p, sg)"
proof -
  have "split (hex (payload_id p) @ CHR ''.'' # decimal (iat p) @ CHR ''.'' # decimal (exp p)
                 @ CHR ''.'' # hex sg) (CHR ''.'')
        = [hex (payload_id p), decimal (iat p), decimal (exp p), hex sg]"
    using hex_plain [of "payload_id p"] hex_plain [of sg] decimal_plain [of "iat p"]
      decimal_plain [of "exp p"]
    by (simp add: split_at_first_separator split_without_separator)
  then show ?thesis
    by (simp add: parse_token_def serialize_token_def unhex_hex number_decimal)
qed

lemma serialize_token_plain:
  "serialize_token (p, sg) \<noteq> [] \<and> CHR '' '' \<notin> set (serialize_token (p, sg))"
  using hex_plain [of "payload_id p"] hex_plain [of sg] decimal_plain [of "iat p"]
    decimal_plain [of "exp p"]
  by (simp add: serialize_token_def)

section \<open>The Token Issuer\<close>

text \<open>
  The two ways an issuance fails: the signing throws, or the cookie's date is not a
  valid date, as when the configured lifetime is not a number.
\<close>

lemma sendTokenResponse_signing_throws:
  assumes "g u = Inl e"
  shows "sendTokenResponse g env now u code res = Inl e"
  using assms by (simp add: sendTokenResponse_def)

lemma sendTokenResponse_not_a_number:
  assumes "JWT_COOKIE_EXPIRES env = None" and "g u = Inr tok"
  shows "sendTokenResponse g env now u code res = Inl TypeError"
  using assms by (simp add: sendTokenResponse_def new_Date_def)

lemma char_of_eq_iff: "n < 256 \<Longrightarrow> (char_of (n::nat) = c) = (n = of_char c)"
proof
  assume "n < 256" and "char_of n = c"
  then have "of_char (char_of n) = (of_char c :: nat)"
    by (simp only:)
  with \<open>n < 256\<close> show "n = of_char c"
    by simp
next
  assume "n = of_char c"
  then show "char_of n = c"
    by simp
qed

lemma hex_publisher_id:
  "hex ''607c2e7951e97dcba431a3b8'' = ''363037633265373935316539376463626134333161336238''"
  by (simp add: hex_def hexdigit_def char_of_eq_iff)

lemma decimal_1000: "decimal 1000 = ''1000''"
  by code_simp

lemma publisher_token:
  "getSignedToken checksum ''s3cret'' 30 1000 publisher = Inr ''363037633265373935316539376463626134333161336238.1000.2592001000.32353932303034323738''"
proof -
  have "checksum ''s3cret'' (token_payload 30 1000 publisher) = ''2592004278''"
    by code_simp
  moreover have "hex ''2592004278'' = ''32353932303034323738''"
    by (simp add: hex_def hexdigit_def char_of_eq_iff)
  moreover have "decimal 2592001000 = ''2592001000''"
    by code_simp
  ultimately show ?thesis
    by (simp add: getSignedToken_def Let_def serialize_token_def hex_publisher_id
        decimal_1000 token_payload_def publisher_def)
qed

lemma publisher_token_no_lifetime:
  "getSignedToken checksum ''s3cret'' 0 1000 publisher = Inr ''363037633265373935316539376463626134333161336238.1000.1000.34323738''"
proof -
  have "checksum ''s3cret'' (token_payload 0 1000 publisher) = ''4278''"
    by code_simp
  moreover have "hex ''4278'' = ''34323738''"
    by (simp add: hex_def hexdigit_def char_of_eq_iff)
  ultimately show ?thesis
    by (simp add: getSignedToken_def Let_def serialize_token_def hex_publisher_id
        decimal_1000 token_payload_def publisher_def)
qed

text \<open>
  Claim C8, as it is written, asks for the cookie's expiry to match the token's own.
  The token is signed first, with the issuer's reading of the clock, and the cookie's
  date is computed from a second reading: signed at time 1000 and set at time 1001
  with a lifetime of 30 days, the token expires at 2592001000 and the cookie at
  2592001001.
\<close>

theorem cookie_expiry_differs_from_token:
  "getSignedToken checksum (JWT_SECRET demo_env) 30 1000 publisher = Inr ''363037633265373935316539376463626134333161336238.1000.2592001000.32353932303034323738''
   \<and> parse_token ''363037633265373935316539376463626134333161336238.1000.2592001000.32353932303034323738''
     = Some (\<lparr>payload_id = ''607c2e7951e97dcba431a3b8'', iat = 1000, exp = 2592001000\<rparr>,
             ''2592004278'')
   \<and> sendTokenResponse (getSignedToken checksum (JWT_SECRET demo_env) 30 1000) demo_env 1001
        publisher 200 res_fresh
     = Inr \<lparr>status = 200,
            set_cookies =
              [(''token'', ''363037633265373935316539376463626134333161336238.1000.2592001000.32353932303034323738'', \<lparr>expires = 2592001001, httpOnly = True, secure = None\<rparr>)],
            json_body = Some (JObject [(''success'', JBool True), (''token'', JString ''363037633265373935316539376463626134333161336238.1000.2592001000.32353932303034323738'')])\<rparr>"
proof -
  have secret: "JWT_SECRET demo_env = ''s3cret''"
    by (simp add: demo_env_def)
  have parsed: "parse_token ''363037633265373935316539376463626134333161336238.1000.2592001000.32353932303034323738''
     = Some (\<lparr>payload_id = ''607c2e7951e97dcba431a3b8'', iat = 1000, exp = 2592001000\<rparr>,
             ''2592004278'')"
    by code_simp
  have sent: "sendTokenResponse (getSignedToken checksum ''s3cret'' 30 1000) demo_env 1001
        publisher 200 res_fresh
     = Inr \<lparr>status = 200,
            set_cookies =
              [(''token'', ''363037633265373935316539376463626134333161336238.1000.2592001000.32353932303034323738'', \<lparr>expires = 2592001001, httpOnly = True, secure = None\<rparr>)],
            json_body = Some (JObject [(''success'', JBool True), (''token'', JString ''363037633265373935316539376463626134333161336238.1000.2592001000.32353932303034323738'')])\<rparr>"
    by (simp add: sendTokenResponse_def publisher_token new_Date_def demo_env_def res_fresh_def)
  from secret parsed sent publisher_token show ?thesis
    by (simp only: simp_thms)
qed

text \<open>
  Claim C8, amended: with a configured lifetime of \<open>d\<close> days, an issuance succeeds
  when the cookie's date, the reading of the clock at the cookie plus \<open>d\<close> days, is a
  valid date, and throws otherwise. A successful issuance adds one cookie named
  \<^verbatim>\<open>token\<close> whose value is the signed token, flagged HTTP-only, expiring at that
  date, with the status asked for and the body \<^verbatim>\<open>{ success: true, token }\<close>. The
  cookie's expiry is later than the expiry embedded in the token by the time that
  passed between the signing and the reading of the clock for the cookie.
\<close>

theorem sendTokenResponse_cookie_and_body:
  assumes "JWT_COOKIE_EXPIRES env = Some d"
  shows
    "sendTokenResponse (getSignedToken sign (JWT_SECRET env) d t_sign) env t_cookie u code res =
       (if \<bar>t_cookie + d * 24 * 3600 * 1000\<bar> \<le> 8640000000000000
        then Inr (res\<lparr>status := code,
               set_cookies := set_cookies res @
                 [(''token'',
                   serialize_token (token_payload d t_sign u,
                                    sign (JWT_SECRET env) (token_payload d t_sign u)),
                   \<lparr>expires = t_cookie + d * 24 * 3600 * 1000, httpOnly = True,
                    secure = (if NODE_ENV env = ''Production'' then Some True else None)\<rparr>)],
               json_body := Some (JObject [(''success'', JBool True),
                  (''token'',
                   JString (serialize_token (token_payload d t_sign u,
                              sign (JWT_SECRET env) (token_payload d t_sign u))))])\<rparr>)
        else Inl TypeError)
     \<and> (t_cookie + d * 24 * 3600 * 1000) - exp (token_payload d t_sign u) = t_cookie - t_sign"
  using assms
  by (simp add: sendTokenResponse_def getSignedToken_def token_payload_def new_Date_def Let_def)

text \<open>
  A login of the publisher, signed at time 1000 and its cookie set at time 1001, with
  a lifetime of 30 days; and the same login with a lifetime of a hundred million days,
  whose cookie date is not a valid date.
\<close>

theorem sendTokenResponse_cookie_and_body_witness:
  "JWT_COOKIE_EXPIRES demo_env = Some 30
   \<and> sendTokenResponse (getSignedToken checksum (JWT_SECRET demo_env) 30 1000) demo_env 1001
        publisher 200 res_fresh
     = Inr \<lparr>status = 200,
            set_cookies =
              [(''token'', ''363037633265373935316539376463626134333161336238.1000.2592001000.32353932303034323738'', \<lparr>expires = 2592001001, httpOnly = True, secure = None\<rparr>)],
            json_body = Some (JObject [(''success'', JBool True), (''token'', JString ''363037633265373935316539376463626134333161336238.1000.2592001000.32353932303034323738'')])\<rparr>
   \<and> JWT_COOKIE_EXPIRES env_far_future = Some 100000000
   \<and> sendTokenResponse (getSignedToken checksum (JWT_SECRET env_far_future) 100000000 1000)
        env_far_future 1000 publisher 200 res_fresh
     = Inl TypeError"
proof -
  have a: "JWT_COOKIE_EXPIRES demo_env = Some 30"
    by (simp add: demo_env_def)
  have b: "JWT_COOKIE_EXPIRES env_far_future = Some 100000000"
    by (simp add: env_far_future_def)
  have secret: "JWT_SECRET demo_env = ''s3cret''"
    by (simp add: demo_env_def)
  have tok: "serialize_token (token_payload 30 1000 publisher,
                              checksum ''s3cret'' (token_payload 30 1000 publisher)) = ''363037633265373935316539376463626134333161336238.1000.2592001000.32353932303034323738''"
    using publisher_token by (simp add: getSignedToken_def Let_def)
  have "sendTokenResponse (getSignedToken checksum (JWT_SECRET demo_env) 30 1000) demo_env 1001
        publisher 200 res_fresh
     = Inr \<lparr>status = 200,
            set_cookies =
              [(''token'', ''363037633265373935316539376463626134333161336238.1000.2592001000.32353932303034323738'', \<lparr>expires = 2592001001, httpOnly = True, secure = None\<rparr>)],
            json_body = Some (JObject [(''success'', JBool True), (''token'', JString ''363037633265373935316539376463626134333161336238.1000.2592001000.32353932303034323738'')])\<rparr>"
    using sendTokenResponse_cookie_and_body [OF a, where sign = checksum and t_sign = 1000
        and t_cookie = 1001 and u = publisher and code = 200 and res = res_fresh]
    by (simp add: secret tok res_fresh_def demo_env_def)
  moreover have "sendTokenResponse
        (getSignedToken checksum (JWT_SECRET env_far_future) 100000000 1000)
        env_far_future 1000 publisher 200 res_fresh
     = Inl TypeError"
    using sendTokenResponse_cookie_and_body [OF b, where sign = checksum and t_sign = 1000
        and t_cookie = 1000 and u = publisher and code = 200 and res = res_fresh]
    by simp
  ultimately show ?thesis
    using a b by (simp only: simp_thms)
qed

section \<open>Issue, then verify\<close>

text \<open>
  Claim C6, as it is written, lets every issued token verify when it is presented at
  once. With a configured lifetime of no days the token expires as it is issued: the
  publisher's token, signed at time 1000 and presented at time 1000 with the publisher
  in storage, is rejected with 401.
\<close>

theorem issued_token_refused_at_once:
  "sendTokenResponse (getSignedToken checksum (JWT_SECRET env_no_lifetime) 0 1000)
     env_no_lifetime 1000 publisher 200 res_fresh
     = Inr \<lparr>status = 200,
            set_cookies =
              [(''token'', ''363037633265373935316539376463626134333161336238.1000.1000.34323738'', \<lparr>expires = 1000, httpOnly = True, secure = None\<rparr>)],
            json_body = Some (JObject [(''success'', JBool True), (''token'', JString ''363037633265373935316539376463626134333161336238.1000.1000.34323738'')])\<rparr>
   \<and> authorization (headers req_expired) = Some (''Bearer '' @ ''363037633265373935316539376463626134333161336238.1000.1000.34323738'')
   \<and> users_one (user_id publisher) = Inr (Some publisher)
   \<and> protect (jwt_verify_spec checksum 1000) users_one env_no_lifetime req_expired
     = NextErr \<lparr>message = ''Not authorized to access this resource.'', statusCode = 401\<rparr>"
proof -
  have secret: "JWT_SECRET env_no_lifetime = ''s3cret''"
    by (simp add: env_no_lifetime_def demo_env_def)
  have issued: "sendTokenResponse (getSignedToken checksum ''s3cret'' 0 1000)
     env_no_lifetime 1000 publisher 200 res_fresh
     = Inr \<lparr>status = 200,
            set_cookies =
              [(''token'', ''363037633265373935316539376463626134333161336238.1000.1000.34323738'', \<lparr>expires = 1000, httpOnly = True, secure = None\<rparr>)],
            json_body = Some (JObject [(''success'', JBool True), (''token'', JString ''363037633265373935316539376463626134333161336238.1000.1000.34323738'')])\<rparr>"
    by (simp add: sendTokenResponse_def publisher_token_no_lifetime new_Date_def
        env_no_lifetime_def demo_env_def res_fresh_def)
  have sent: "authorization (headers req_expired) = Some (''Bearer '' @ ''363037633265373935316539376463626134333161336238.1000.1000.34323738'')"
    by (simp add: req_expired_def req_anonymous_def)
  have found: "users_one (user_id publisher) = Inr (Some publisher)"
    by (simp add: users_one_def publisher_def)
  have extracted: "bearer_token req_expired = Some ''363037633265373935316539376463626134333161336238.1000.1000.34323738''"
    using sent by (rule bearer_token_of_header) simp
  have refused: "jwt_verify_spec checksum 1000 ''363037633265373935316539376463626134333161336238.1000.1000.34323738'' ''s3cret''
                 = Inl (JsonWebTokenError ''jwt expired'')"
    by code_simp
  have "protect (jwt_verify_spec checksum 1000) users_one env_no_lifetime req_expired
     = NextErr \<lparr>message = ''Not authorized to access this resource.'', statusCode = 401\<rparr>"
    by (simp add: protect_def extracted secret refused UNAUTHORIZED_def)
  with issued sent found secret show ?thesis
    by (simp only: simp_thms)
qed

text \<open>
  Claim C6, amended: the token the issuer puts in the body of a successful response,
  sent back in the header \<^verbatim>\<open>Authorization: Bearer <token>\<close>, is extracted whole.
  While the verifier's clock is before the token's expiry (the issuer's reading of the
  clock plus the lifetime) it verifies against the configured secret and resolves to
  the identifier of the user it was issued for, so that the verifier looks that
  identifier up and attaches the user found. Once the expiry is reached, at once when
  the lifetime is not positive, it is rejected with 401.
\<close>

theorem issued_token_round_trip:
  assumes issued:
      "sendTokenResponse (getSignedToken sign (JWT_SECRET env) days t_issue) env t_cookie u
         code res = Inr res'"
    and body: "json_body res' = Some (JObject [(''success'', JBool True), (''token'', JString tok)])"
    and sent: "authorization (headers req) = Some (''Bearer '' @ tok)"
  shows "bearer_token req = Some tok
         \<and> jwt_verify_spec sign t_verify tok (JWT_SECRET env) =
             (if t_verify < t_issue + days * 24 * 3600 * 1000
              then Inr (token_payload days t_issue u)
              else Inl (JsonWebTokenError ''jwt expired''))
         \<and> payload_id (token_payload days t_issue u) = user_id u
         \<and> protect (jwt_verify_spec sign t_verify) fb env req =
             (if t_verify < t_issue + days * 24 * 3600 * 1000
              then (case fb (user_id u) of
                      Inl e \<Rightarrow> NextErr \<lparr>message = UNAUTHORIZED, statusCode = 401\<rparr>
                    | Inr None \<Rightarrow> NextErr \<lparr>message = NO_LONGER_A_USER, statusCode = 401\<rparr>
                    | Inr (Some u') \<Rightarrow> Next (req\<lparr>user := Some u'\<rparr>))
              else NextErr \<lparr>message = UNAUTHORIZED, statusCode = 401\<rparr>)"
proof -
  let ?p = "token_payload days t_issue u"
  let ?sg = "sign (JWT_SECRET env) ?p"
  from issued have "json_body res' = Some (JObject [(''success'', JBool True),
                      (''token'', JString (serialize_token (?p, ?sg)))])"
    by (auto simp: sendTokenResponse_def getSignedToken_def Let_def
        split: option.splits)
  with body have tok: "tok = serialize_token (?p, ?sg)"
    by simp
  have plain: "tok \<noteq> []" "CHR '' '' \<notin> set tok"
    using serialize_token_plain [of ?p ?sg] by (simp_all add: tok)
  from sent plain(2) have extracted: "bearer_token req = Some tok"
    by (rule bearer_token_of_header)
  have parsed: "parse_token tok = Some (?p, ?sg)"
    by (simp add: tok parse_serialize_token)
  have expiry: "exp ?p = t_issue + days * 24 * 3600 * 1000"
    and subject: "payload_id ?p = user_id u"
    by (simp_all add: token_payload_def)
  from parsed expiry have verified:
    "jwt_verify_spec sign t_verify tok (JWT_SECRET env) =
       (if t_verify < t_issue + days * 24 * 3600 * 1000 then Inr ?p
        else Inl (JsonWebTokenError ''jwt expired''))"
    by (simp add: jwt_verify_spec_def)
  from extracted plain(1) verified subject
  have "protect (jwt_verify_spec sign t_verify) fb env req =
          (if t_verify < t_issue + days * 24 * 3600 * 1000
           then (case fb (user_id u) of
                   Inl e \<Rightarrow> NextErr \<lparr>message = UNAUTHORIZED, statusCode = 401\<rparr>
                 | Inr None \<Rightarrow> NextErr \<lparr>message = NO_LONGER_A_USER, statusCode = 401\<rparr>
                 | Inr (Some u') \<Rightarrow> Next (req\<lparr>user := Some u'\<rparr>))
           else NextErr \<lparr>message = UNAUTHORIZED, statusCode = 401\<rparr>)"
    by (simp add: protect_def split: sum.splits option.splits)
  with extracted verified subject show ?thesis
    by (simp only: simp_thms)
qed

text \<open>
  The publisher logs in, the token signed at time 1000 and the cookie set at time 1001,
  and presents the token at time 2000, within its 30 days.
\<close>

theorem issued_token_round_trip_witness:
  "sendTokenResponse (getSignedToken checksum (JWT_SECRET demo_env) 30 1000) demo_env 1001
     publisher 200 res_fresh
     = Inr \<lparr>status = 200,
            set_cookies =
              [(''token'', ''363037633265373935316539376463626134333161336238.1000.2592001000.32353932303034323738'', \<lparr>expires = 2592001001, httpOnly = True, secure = None\<rparr>)],
            json_body = Some (JObject [(''success'', JBool True), (''token'', JString ''363037633265373935316539376463626134333161336238.1000.2592001000.32353932303034323738'')])\<rparr>
   \<and> authorization (headers req_issued) = Some (''Bearer '' @ ''363037633265373935316539376463626134333161336238.1000.2592001000.32353932303034323738'')
   \<and> users_one (user_id publisher) = Inr (Some publisher)
   \<and> jwt_verify_spec checksum 2000 ''363037633265373935316539376463626134333161336238.1000.2592001000.32353932303034323738'' (JWT_SECRET demo_env)
     = Inr (token_payload 30 1000 publisher)
   \<and> protect (jwt_verify_spec checksum 2000) users_one demo_env req_issued
     = Next (req_issued\<lparr>user := Some publisher\<rparr>)"
proof -
  have secret: "JWT_SECRET demo_env = ''s3cret''"
    by (simp add: demo_env_def)
  have issued: "sendTokenResponse (getSignedToken checksum (JWT_SECRET demo_env) 30 1000)
     demo_env 1001 publisher 200 res_fresh
     = Inr \<lparr>status = 200,
            set_cookies =
              [(''token'', ''363037633265373935316539376463626134333161336238.1000.2592001000.32353932303034323738'', \<lparr>expires = 2592001001, httpOnly = True, secure = None\<rparr>)],
            json_body = Some (JObject [(''success'', JBool True), (''token'', JString ''363037633265373935316539376463626134333161336238.1000.2592001000.32353932303034323738'')])\<rparr>"
    by (simp add: sendTokenResponse_def secret publisher_token new_Date_def demo_env_def
        res_fresh_def)
  have body: "json_body \<lparr>status = 200,
            set_cookies =
              [(''token'', ''363037633265373935316539376463626134333161336238.1000.2592001000.32353932303034323738'', \<lparr>expires = 2592001001, httpOnly = True, secure = None\<rparr>)],
            json_body = Some (JObject [(''success'', JBool True), (''token'', JString ''363037633265373935316539376463626134333161336238.1000.2592001000.32353932303034323738'')])\<rparr>
     = Some (JObject [(''success'', JBool True), (''token'', JString ''363037633265373935316539376463626134333161336238.1000.2592001000.32353932303034323738'')])"
    by simp
  have sent: "authorization (headers req_issued) = Some (''Bearer '' @ ''363037633265373935316539376463626134333161336238.1000.2592001000.32353932303034323738'')"
    by (simp add: req_issued_def req_anonymous_def)
  have found: "users_one (user_id publisher) = Inr (Some publisher)"
    by (simp add: users_one_def publisher_def)
  note round_trip =
    issued_token_round_trip [where sign = checksum and env = demo_env and days = 30
      and t_issue = 1000 and t_cookie = 1001 and u = publisher and code = 200
      and res = res_fresh and req = req_issued and fb = users_one and t_verify = 2000
      and tok = "''363037633265373935316539376463626134333161336238.1000.2592001000.32353932303034323738''",
      OF issued body sent]
  have verified:
    "jwt_verify_spec checksum 2000 ''363037633265373935316539376463626134333161336238.1000.2592001000.32353932303034323738'' (JWT_SECRET demo_env)
     = Inr (token_payload 30 1000 publisher)"
    using round_trip [THEN conjunct2, THEN conjunct1] by simp
  have passed:
    "protect (jwt_verify_spec checksum 2000) users_one demo_env req_issued
     = Next (req_issued\<lparr>user := Some publisher\<rparr>)"
    using round_trip [THEN conjunct2, THEN conjunct2, THEN conjunct2] by (simp add: found)
  from issued sent found verified passed show ?thesis
    by (intro conjI)
qed

end
